theory Spec2Isabelle
  imports Main "HOL-Library.Sublist"
begin

section \<open>Python values\<close>

text \<open>
  A Python \<open>str\<close> is a sequence of Unicode code points; a code point is modelled as a
  natural number, so that the characters beyond ASCII which the case-insensitive matcher
  accepts are part of the model. \<open>str\<close> turns an ASCII literal into such a sequence.
\<close>

type_synonym pystr = "nat list"

definition str :: "string \<Rightarrow> pystr" where
  "str s = map of_char s"

text \<open>
  The values that reach the functions of the module: \<open>None\<close>, booleans, integers, text,
  byte strings, and opaque objects (a composed query object, the cursor factory), which
  define neither \<open>__bool__\<close> nor \<open>__len__\<close> and are therefore true.
\<close>

datatype pyval =
    PyNone
  | PyBool bool
  | PyInt int
  | PyStr pystr
  | PyBytes "nat list"
  | PyObject string

text \<open>
  The exceptions of the model. \<open>psycopg2.DatabaseError\<close> is the class named by the
  handler of \<open>__initialize_list\<close>; \<open>OperationalError\<close> and \<open>ProgrammingError\<close> are
  subclasses of it, \<open>InterfaceError\<close> is a \<open>psycopg2.Error\<close> outside it, and
  \<open>TypeError\<close> and \<open>IndexError\<close> are Python's own.
\<close>

datatype error =
    DatabaseError
  | OperationalError
  | ProgrammingError
  | InterfaceError
  | TypeError
  | IndexError

fun isinstance_DatabaseError :: "error \<Rightarrow> bool" where
  "isinstance_DatabaseError DatabaseError = True"
| "isinstance_DatabaseError OperationalError = True"
| "isinstance_DatabaseError ProgrammingError = True"
| "isinstance_DatabaseError InterfaceError = False"
| "isinstance_DatabaseError TypeError = False"
| "isinstance_DatabaseError IndexError = False"

fun truthy :: "pyval \<Rightarrow> bool" where
  "truthy PyNone = False"
| "truthy (PyBool b) = b"
| "truthy (PyInt i) = (i \<noteq> 0)"
| "truthy (PyStr s) = (s \<noteq> [])"
| "truthy (PyBytes b) = (b \<noteq> [])"
| "truthy (PyObject n) = True"

fun isinstance_str :: "pyval \<Rightarrow> bool" where
  "isinstance_str (PyStr s) = True"
| "isinstance_str v = False"

text \<open>\<open>a or b\<close>: the left operand when it is true, the right one otherwise.\<close>

definition py_or :: "pyval \<Rightarrow> pyval \<Rightarrow> pyval" where
  "py_or a b = (if truthy a then a else b)"

text \<open>\<open>d.get(k)\<close>: the value stored under the key, \<open>None\<close> for a missing key.\<close>

definition dict_get :: "(string \<rightharpoonup> pyval) \<Rightarrow> string \<Rightarrow> pyval" where
  "dict_get d k = (case d k of None \<Rightarrow> PyNone | Some v \<Rightarrow> v)"

section \<open>The query rewriter\<close>

text \<open>
  \<^verbatim>\<open>public_schema_filter = re.compile(r"(')?(public(?(1)\1|)\.)", re.IGNORECASE | re.MULTILINE)\<close>

  Under \<open>re.IGNORECASE\<close> a literal of a text pattern is compared after lower-casing the
  subject character; the letter \<open>i\<close> is compiled to a set that also holds U+0131, and
  U+0130 lower-cases to \<open>i\<close>. \<open>ignorecase_eq lo ch\<close> is that comparison for the
  characters of this pattern (\<open>lo\<close> is a character of the pattern, \<open>ch\<close> one of the
  subject): the quote (39) and the dot (46) have no case and match only themselves.
\<close>

definition ignorecase_eq :: "nat \<Rightarrow> nat \<Rightarrow> bool" where
  "ignorecase_eq lo ch =
     (ch = lo \<or> (97 \<le> lo \<and> lo \<le> 122 \<and> ch + 32 = lo) \<or> (lo = 105 \<and> (ch = 304 \<or> ch = 305)))"

text \<open>Matching a run of literals at the head of the subject; the result is what follows.\<close>

fun literal :: "pystr \<Rightarrow> pystr \<Rightarrow> pystr option" where
  "literal [] s = Some s"
| "literal (c # cs) [] = None"
| "literal (c # cs) (x # s) = (if ignorecase_eq c x then literal cs s else None)"

text \<open>
  One attempt of the pattern at the head of the subject. Group 1 is optional and greedy:
  the branch with the quote is tried first, and there the conditional \<open>(?(1)\1|)\<close> asks
  for the quote again; when that branch fails the matcher backtracks to the branch
  without group 1, where the conditional is empty. The flag \<open>re.MULTILINE\<close> changes
  the anchors \<open>^\<close> and \<open>$\<close> only, and the pattern has none.
\<close>

definition public_schema_filter :: "pystr \<Rightarrow> pystr option" where
  "public_schema_filter s =
     (case Option.bind (literal [39] s)
             (\<lambda>s1. Option.bind (literal (str ''public'') s1)
               (\<lambda>s2. Option.bind (literal [39] s2) (literal [46]))) of
        Some r \<Rightarrow> Some r
      | None \<Rightarrow> Option.bind (literal (str ''public'') s) (literal [46]))"

text \<open>
  \<open>re.sub(public_schema_filter, "", query)\<close> on a text: the subject is scanned from the
  left; where the pattern matches, the match is dropped and the scan goes on behind it,
  elsewhere the character is kept. A match of this pattern is never empty.
\<close>

function re_sub :: "pystr \<Rightarrow> pystr" where
  "re_sub [] = []"
| "re_sub (x # xs) =
     (case public_schema_filter (x # xs) of
        Some r \<Rightarrow> re_sub r
      | None \<Rightarrow> x # re_sub xs)"
  by pat_completeness auto

lemma literal_length: "literal cs s = Some r \<Longrightarrow> length r + length cs = length s"
  by (induction cs s rule: literal.induct) (auto split: if_splits)

lemma public_schema_filter_length:
  assumes "public_schema_filter s = Some r"
  shows "length r < length s"
  using assms
  by (auto simp: public_schema_filter_def str_def split: option.splits bind_splits
      dest!: literal_length)

termination re_sub
  by (relation "measure length") (auto dest: public_schema_filter_length)

text \<open>
  The two operations of the guarded branch as Python has them on any value. The test
  \<open>"public" in query\<close> is defined for a text only and raises \<open>TypeError\<close> on every other
  value of the model; \<open>re.sub\<close> with a text pattern raises \<open>TypeError\<close> on anything
  that is not a text.
\<close>

definition public_in :: "pyval \<Rightarrow> error + bool" where
  "public_in query =
     (case query of PyStr s \<Rightarrow> Inr (sublist (str ''public'') s) | _ \<Rightarrow> Inl TypeError)"

definition re_sub_value :: "pyval \<Rightarrow> error + pyval" where
  "re_sub_value query =
     (case query of PyStr s \<Rightarrow> Inr (PyStr (re_sub s)) | _ \<Rightarrow> Inl TypeError)"

text \<open>
  \<^verbatim>\<open>
  def remove_public_schema(query):
      if query and isinstance(query, str) and "public" in query:
          return re.sub(public_schema_filter, "", query)
      return query
  \<close>
  The conjunction is evaluated from the left and stops at the first false operand.
\<close>

definition remove_public_schema :: "pyval \<Rightarrow> error + pyval" where
  "remove_public_schema query =
     (if \<not> truthy query then Inr query
      else if \<not> isinstance_str query then Inr query
      else (case public_in query of
              Inl e \<Rightarrow> Inl e
            | Inr found \<Rightarrow> if found then re_sub_value query else Inr query))"

section \<open>The capability lists\<close>

text \<open>The two compiled-in lists, entry by entry as the module has them.\<close>

definition default_func_names :: "pyval list" where
  "default_func_names = map (PyStr \<circ> str)
    [''abs'', ''acos'', ''all_tables'', ''and'', ''asin'', ''atan'', ''atan2'', ''avg'',
     ''base64'', ''between'', ''build'', ''case'', ''cast'', ''ceil'', ''ceiling'',
     ''coalesce'', ''concat'', ''cos'', ''cot'', ''count'', ''count_distinct'',
     ''current_database'', ''current_schema'', ''current_schemas'', ''current_user'',
     ''date_trunc'', ''dateadd'', ''datediff'', ''day'', ''day_of_week'',
     ''day_of_week_sunday_first'', ''days_in_month'', ''degrees'', ''dump_memory_usage'',
     ''dump_thread_stacks'', ''extract'', ''first'', ''floor'', ''flush_query_cache'',
     ''format_type'', ''haversine_dist_deg'', ''hour'', ''ilike'',
     ''information_schema._pg_expandarray'', ''isOrdered'', ''is_leap_year'', ''ksum'',
     ''last'', ''left'', ''length'', ''like'', ''list'', ''log'', ''long_sequence'',
     ''lower'', ''lpad'', ''ltrim'', ''make_geohash'', ''max'', ''memory_metrics'',
     ''micros'', ''millis'', ''min'', ''minute'', ''month'', ''not'', ''now'', ''nsum'',
     ''nullif'', ''pg_advisory_unlock_all'', ''pg_attrdef'', ''pg_attribute'',
     ''pg_catalog.age'', ''pg_catalog.current_database'', ''pg_catalog.current_schema'',
     ''pg_catalog.current_schemas'', ''pg_catalog.pg_attrdef'', ''pg_catalog.pg_attribute'',
     ''pg_catalog.pg_class'', ''pg_catalog.pg_database'', ''pg_catalog.pg_description'',
     ''pg_catalog.pg_get_expr'', ''pg_catalog.pg_get_keywords'',
     ''pg_catalog.pg_get_partkeydef'', ''pg_catalog.pg_get_userbyid'',
     ''pg_catalog.pg_index'', ''pg_catalog.pg_inherits'', ''pg_catalog.pg_is_in_recovery'',
     ''pg_catalog.pg_locks'', ''pg_catalog.pg_namespace'', ''pg_catalog.pg_roles'',
     ''pg_catalog.pg_shdescription'', ''pg_catalog.pg_table_is_visible'',
     ''pg_catalog.pg_type'', ''pg_catalog.txid_current'', ''pg_catalog.version'',
     ''pg_class'', ''pg_database'', ''pg_description'', ''pg_get_expr'', ''pg_get_keywords'',
     ''pg_get_partkeydef'', ''pg_index'', ''pg_inherits'', ''pg_is_in_recovery'',
     ''pg_locks'', ''pg_namespace'', ''pg_postmaster_start_time'', ''pg_proc'', ''pg_range'',
     ''pg_roles'', ''pg_type'', ''position'', ''power'', ''radians'', ''reader_pool'',
     ''regexp_replace'', ''replace'', ''right'', ''rnd_bin'', ''rnd_boolean'', ''rnd_byte'',
     ''rnd_char'', ''rnd_date'', ''rnd_double'', ''rnd_float'', ''rnd_geohash'', ''rnd_int'',
     ''rnd_log'', ''rnd_long'', ''rnd_long256'', ''rnd_short'', ''rnd_str'', ''rnd_symbol'',
     ''rnd_timestamp'', ''rnd_uuid4'', ''round'', ''round_down'', ''round_half_even'',
     ''round_up'', ''row_number'', ''rpad'', ''rtrim'', ''second'', ''session_user'',
     ''simulate_crash'', ''sin'', ''size_pretty'', ''split_part'', ''sqrt'', ''starts_with'',
     ''stddev_samp'', ''string_agg'', ''strpos'', ''substring'', ''sum'', ''switch'',
     ''sysdate'', ''systimestamp'', ''table_columns'', ''table_partitions'',
     ''table_writer_metrics'', ''tables'', ''tan'', ''timestamp_ceil'', ''timestamp_floor'',
     ''timestamp_sequence'', ''timestamp_shuffle'', ''to_char'', ''to_date'', ''to_long128'',
     ''to_lowercase'', ''to_pg_date'', ''to_str'', ''to_timestamp'', ''to_timezone'',
     ''to_uppercase'', ''to_utc'', ''touch'', ''trim'', ''txid_current'', ''typeOf'',
     ''upper'', ''version'', ''wal_tables'', ''week_of_year'', ''year'']"

definition default_keywords :: "pyval list" where
  "default_keywords = map (PyStr \<circ> str)
    [''add'', ''all'', ''alter'', ''and'', ''as'', ''asc'', ''asof'', ''backup'', ''between'',
     ''by'', ''cache'', ''capacity'', ''case'', ''cast'', ''column'', ''columns'', ''copy'',
     ''create'', ''cross'', ''database'', ''default'', ''delete'', ''desc'', ''distinct'',
     ''drop'', ''else'', ''end'', ''except'', ''exists'', ''fill'', ''foreign'', ''from'',
     ''grant'', ''group'', ''header'', ''if'', ''in'', ''index'', ''inner'', ''insert'',
     ''intersect'', ''into'', ''isolation'', ''join'', ''key'', ''latest'', ''limit'',
     ''lock'', ''lt'', ''nan'', ''natural'', ''nocache'', ''none'', ''not'', ''null'', ''on'',
     ''only'', ''or'', ''order'', ''outer'', ''over'', ''partition'', ''primary'',
     ''references'', ''rename'', ''repair'', ''right'', ''sample'', ''select'', ''show'',
     ''splice'', ''system'', ''table'', ''tables'', ''then'', ''to'', ''transaction'',
     ''truncate'', ''type'', ''union'', ''unlock'', ''update'', ''values'', ''when'',
     ''where'', ''with'', ''writer'']"

text \<open>
  The module's two global lists, \<open>__func_names\<close> and \<open>__keywords\<close> (here
  \<open>keywords_list\<close>); both start empty.
\<close>

record globals =
  func_names :: "pyval list"
  keywords_list :: "pyval list"

definition initial_globals :: globals where
  "initial_globals = \<lparr>func_names = [], keywords_list = []\<rparr>"

definition get_function_names :: "globals \<Rightarrow> pyval list" where
  "get_function_names g = func_names g"

definition get_keywords :: "globals \<Rightarrow> pyval list" where
  "get_keywords g = keywords_list g"

text \<open>
  The connection of the client library, as far as this module uses it: \<open>conn.cursor()\<close>
  may raise, and a cursor that executes a statement and fetches all rows either raises
  or yields the rows, each row a tuple of values. The cursor is not named, so closing
  it on leaving the \<open>with\<close> block sends nothing to the server.
\<close>

record connection =
  cursor_raises :: "error option"
  server :: "pyval \<Rightarrow> error + pyval list list"

text \<open>
  \<open>Cursor.execute\<close> rewrites the statement and hands it to the cursor of the library;
  the result here is the statement that was sent and what \<open>fetchall\<close> gives for it.
\<close>

definition execute :: "connection \<Rightarrow> pyval \<Rightarrow> error + (pyval \<times> (error + pyval list list))" where
  "execute conn query =
     (case remove_public_schema query of
        Inl e \<Rightarrow> Inl e
      | Inr q \<Rightarrow> Inr (q, server conn q))"

text \<open>
  \<open>for func_row in rows: target_list.append(func_row[0])\<close>; indexing an empty tuple
  raises \<open>IndexError\<close>, and the entries appended before stay in the list.
\<close>

fun append_rows :: "pyval list list \<Rightarrow> pyval list \<Rightarrow> pyval list \<times> error option" where
  "append_rows [] target_list = (target_list, None)"
| "append_rows (func_row # rows) target_list =
     (case func_row of
        [] \<Rightarrow> (target_list, Some IndexError)
      | v # _ \<Rightarrow> append_rows rows (target_list @ [v]))"

text \<open>
  The body of the \<open>try\<close> statement. The result is the target list as the body leaves
  it, the statements sent to the server, and the exception that ended the body, if any.
\<close>

definition populate ::
  "connection \<Rightarrow> pyval \<Rightarrow> pyval list \<Rightarrow> pyval list \<times> pyval list \<times> error option" where
  "populate conn sql_stmt target_list =
     (case cursor_raises conn of
        Some e \<Rightarrow> (target_list, [], Some e)
      | None \<Rightarrow>
          (case execute conn sql_stmt of
             Inl e \<Rightarrow> (target_list, [], Some e)
           | Inr (q, Inl e) \<Rightarrow> (target_list, [q], Some e)
           | Inr (q, Inr rows) \<Rightarrow>
               (case append_rows rows target_list of (t, raised) \<Rightarrow> (t, [q], raised))))"

text \<open>
  \<^verbatim>\<open>
  def __initialize_list(conn, sql_stmt, target_list, default_target_list):
      if not target_list:
          try:
              with conn.cursor() as functions_cur:
                  functions_cur.execute(sql_stmt)
                  for func_row in functions_cur.fetchall():
                      target_list.append(func_row[0])
          except psycopg2.DatabaseError:
              target_list.extend(default_target_list)
  \<close>
\<close>

definition initialize_list ::
  "connection \<Rightarrow> pyval \<Rightarrow> pyval list \<Rightarrow> pyval list \<Rightarrow> pyval list \<times> pyval list \<times> error option" where
  "initialize_list conn sql_stmt target_list default_target_list =
     (if target_list = [] then
        (case populate conn sql_stmt target_list of
           (t, sent, Some e) \<Rightarrow>
             if isinstance_DatabaseError e then (t @ default_target_list, sent, None)
             else (t, sent, Some e)
         | (t, sent, None) \<Rightarrow> (t, sent, None))
      else (target_list, [], None))"

section \<open>The connect operation\<close>

text \<open>
  \<^verbatim>\<open>
  def connect(**kwargs):
      host = kwargs.get("host") or "127.0.0.1"
      port = kwargs.get("port") or 8812
      user = kwargs.get("username") or "admin"
      password = kwargs.get("password") or "quest"
      database = kwargs.get("database") or "main"
      conn = psycopg2.connect(cursor_factory=cursor_factory, host=host, port=port,
                              user=user, password=password, database=database)
      __initialize_list(conn, "SELECT name FROM functions()", __func_names, __default_func_names)
      __initialize_list(conn, "SELECT keyword FROM keywords()", __keywords, __default_keywords)
      return conn
  \<close>
  \<open>connect_args\<close> is the dictionary of keyword arguments of the call of
  \<open>psycopg2.connect\<close>.
\<close>

definition cursor_factory :: pyval where
  "cursor_factory = PyObject ''cursor_factory''"

definition connect_args :: "(string \<rightharpoonup> pyval) \<Rightarrow> (string \<rightharpoonup> pyval)" where
  "connect_args kwargs =
     (let host = py_or (dict_get kwargs ''host'') (PyStr (str ''127.0.0.1''));
          port = py_or (dict_get kwargs ''port'') (PyInt 8812);
          user = py_or (dict_get kwargs ''username'') (PyStr (str ''admin''));
          password = py_or (dict_get kwargs ''password'') (PyStr (str ''quest''));
          database = py_or (dict_get kwargs ''database'') (PyStr (str ''main''))
      in [''cursor_factory'' \<mapsto> cursor_factory, ''host'' \<mapsto> host, ''port'' \<mapsto> port,
          ''user'' \<mapsto> user, ''password'' \<mapsto> password, ''database'' \<mapsto> database])"

text \<open>
  \<open>psycopg2.connect\<close> belongs to the client library and is a parameter: it raises or
  returns a connection. The result of \<open>connect\<close> is the globals as the call leaves
  them, the statements sent to the server, and the exception or the connection.
\<close>

definition connect ::
  "((string \<rightharpoonup> pyval) \<Rightarrow> error + connection) \<Rightarrow> (string \<rightharpoonup> pyval) \<Rightarrow> globals
     \<Rightarrow> globals \<times> pyval list \<times> (error + connection)" where
  "connect psycopg2_connect kwargs g =
     (case psycopg2_connect (connect_args kwargs) of
        Inl e \<Rightarrow> (g, [], Inl e)
      | Inr conn \<Rightarrow>
          (case initialize_list conn (PyStr (str ''SELECT name FROM functions()''))
                  (func_names g) default_func_names of
             (fs, sent1, Some e) \<Rightarrow> (g\<lparr>func_names := fs\<rparr>, sent1, Inl e)
           | (fs, sent1, None) \<Rightarrow>
               (case initialize_list conn (PyStr (str ''SELECT keyword FROM keywords()''))
                       (keywords_list g) default_keywords of
                  (ks, sent2, Some e) \<Rightarrow>
                    (g\<lparr>func_names := fs, keywords_list := ks\<rparr>, sent1 @ sent2, Inl e)
                | (ks, sent2, None) \<Rightarrow>
                    (g\<lparr>func_names := fs, keywords_list := ks\<rparr>, sent1 @ sent2, Inr conn))))"

section \<open>Notions used to state the properties\<close>

text \<open>No position of the text is the start of a match of the pattern.\<close>

fun nomatch :: "pystr \<Rightarrow> bool" where
  "nomatch [] = True"
| "nomatch (x # xs) = (public_schema_filter (x # xs) = None \<and> nomatch xs)"

text \<open>
  The texts the pattern matches in full: \<open>public.\<close> and \<open>'public'.\<close> with every letter
  in either case.
\<close>

definition qualifier :: "pystr \<Rightarrow> bool" where
  "qualifier m =
     (list_all2 ignorecase_eq (str '''public'.'') m \<or> list_all2 ignorecase_eq (str ''public.'') m)"

text \<open>
  The characters a match can have before its final dot: the quote and whatever the
  pattern accepts for a letter of \<open>public\<close> (the letter in either case and, for \<open>i\<close>,
  U+0130 and U+0131).
\<close>

definition qchar :: "nat \<Rightarrow> bool" where
  "qchar c = (c = 39 \<or> (\<exists>lo \<in> set (str ''public''). ignorecase_eq lo c))"

text \<open>
  Every match in the text starts the text or follows a character that is neither a quote
  nor a letter of \<open>public\<close>; \<open>glued\<close> says that the character before the text is one
  of those.
\<close>

fun detached_from :: "bool \<Rightarrow> pystr \<Rightarrow> bool" where
  "detached_from glued [] = True"
| "detached_from glued (x # xs) =
     ((glued \<longrightarrow> public_schema_filter (x # xs) = None) \<and> detached_from (qchar x) xs)"

definition detached :: "pystr \<Rightarrow> bool" where
  "detached s = detached_from False s"

text \<open>
  A text laid out as stretches without a match, separated by qualifiers: \<open>weave g qgs\<close>
  is \<open>g\<close> followed, for each pair \<open>(q, g')\<close> of \<open>qgs\<close>, by the qualifier \<open>q\<close> and the
  stretch \<open>g'\<close>.
\<close>

fun weave :: "pystr \<Rightarrow> (pystr \<times> pystr) list \<Rightarrow> pystr" where
  "weave g [] = g"
| "weave g ((q, g') # qgs) = g @ q @ weave g' qgs"

text \<open>
  A text in which no position starts a qualifier, written out character by character:
  \<open>unquoted_at\<close> holds of a text that begins with the six letters of \<open>public\<close>, each
  in lower or upper case (112/80, 117/85, 98/66, 108/76, 105/73, 99/67; for the fifth
  letter also U+0130 and U+0131, 304 and 305), and a dot (46); \<open>quoted_at\<close> asks for a
  single quote (39) before the letters and another between the letters and the dot.
\<close>

fun unquoted_at :: "pystr \<Rightarrow> bool" where
  "unquoted_at (p # u # b # l # i # c # d # rest) =
     (p \<in> {112, 80} \<and> u \<in> {117, 85} \<and> b \<in> {98, 66} \<and> l \<in> {108, 76}
      \<and> i \<in> {105, 73, 304, 305} \<and> c \<in> {99, 67} \<and> d = 46)"
| "unquoted_at s = False"

fun quoted_at :: "pystr \<Rightarrow> bool" where
  "quoted_at (q # p # u # b # l # i # c # q' # d # rest) =
     (q = 39 \<and> p \<in> {112, 80} \<and> u \<in> {117, 85} \<and> b \<in> {98, 66} \<and> l \<in> {108, 76}
      \<and> i \<in> {105, 73, 304, 305} \<and> c \<in> {99, 67} \<and> q' = 39 \<and> d = 46)"
| "quoted_at s = False"

fun qualifier_free :: "pystr \<Rightarrow> bool" where
  "qualifier_free [] = True"
| "qualifier_free (x # xs) =
     (\<not> unquoted_at (x # xs) \<and> \<not> quoted_at (x # xs) \<and> qualifier_free xs)"

text \<open>
  Rewriting the result of a rewrite: an exception of the first call would end the
  computation, a value is rewritten again.
\<close>

definition rewrite_again :: "error + pyval \<Rightarrow> error + pyval" where
  "rewrite_again res = (case res of Inl e \<Rightarrow> Inl e | Inr query \<Rightarrow> remove_public_schema query)"

text \<open>An option of the configuration that is absent or whose value is false.\<close>

definition unset_or_falsy :: "(string \<rightharpoonup> pyval) \<Rightarrow> string \<Rightarrow> bool" where
  "unset_or_falsy kwargs k = (case kwargs k of None \<Rightarrow> True | Some v \<Rightarrow> \<not> truthy v)"

section \<open>Properties of the matcher and of the substitution\<close>

lemma re_sub_nomatch: "nomatch s \<Longrightarrow> re_sub s = s"
  by (induction s) auto

lemma literal_append: "literal (cs @ ds) s = Option.bind (literal cs s) (literal ds)"
  by (induction cs s rule: literal.induct) auto

lemma literal_iff:
  "literal cs s = Some r \<longleftrightarrow> (\<exists>m. s = m @ r \<and> list_all2 ignorecase_eq cs m)"
  by (induction cs s rule: literal.induct) (auto simp: list_all2_Cons1 Cons_eq_append_conv)

lemma filter_alt:
  "public_schema_filter s =
     (case literal (str '''public'.'') s of Some r \<Rightarrow> Some r | None \<Rightarrow> literal (str ''public.'') s)"
proof -
  have q: "str '''public'.'' = [39] @ str ''public'' @ [39] @ [46]"
    by (simp add: str_def)
  have u: "str ''public.'' = str ''public'' @ [46]"
    by (simp add: str_def)
  show ?thesis
    unfolding public_schema_filter_def q u literal_append ..
qed

lemma filter_iff:
  "public_schema_filter s = Some r \<longleftrightarrow> (\<exists>m. s = m @ r \<and> qualifier m)"
proof -
  have excl: "literal (str '''public'.'') s = None" if "literal (str ''public.'') s = Some r'" for r'
    using that by (cases s) (auto simp: str_def ignorecase_eq_def split: if_splits)
  show ?thesis
  proof
    assume "public_schema_filter s = Some r"
    then have "literal (str '''public'.'') s = Some r \<or> literal (str ''public.'') s = Some r"
      by (auto simp: filter_alt split: option.splits)
    then show "\<exists>m. s = m @ r \<and> qualifier m"
      unfolding qualifier_def literal_iff by blast
  next
    assume "\<exists>m. s = m @ r \<and> qualifier m"
    then have "literal (str '''public'.'') s = Some r \<or> literal (str ''public.'') s = Some r"
      unfolding qualifier_def literal_iff by blast
    then show "public_schema_filter s = Some r"
      using excl by (auto simp: filter_alt split: option.splits)
  qed
qed


lemma ignorecase_eq_quote [simp]: "ignorecase_eq 39 c \<longleftrightarrow> c = 39"
  by (auto simp: ignorecase_eq_def)

lemma ignorecase_eq_dot [simp]: "ignorecase_eq 46 c \<longleftrightarrow> c = 46"
  by (auto simp: ignorecase_eq_def)

lemma qualifier_shape:
  assumes "qualifier m"
  shows "m \<noteq> []" and "last m = 46" and "\<forall>c \<in> set (butlast m). qchar c"
  using assms
  by (auto simp: qualifier_def str_def list_all2_Cons1 qchar_def)

lemma nomatch_iff: "nomatch s \<longleftrightarrow> (\<forall>i<length s. public_schema_filter (drop i s) = None)"
  by (induction s) (auto simp: less_Suc_eq_0_disj)

lemma detached_from_append:
  "detached_from b (m @ r) \<Longrightarrow> m \<noteq> [] \<Longrightarrow> detached_from (qchar (last m)) r"
  by (induction m arbitrary: b) (auto split: if_splits)

lemma match_inside:
  assumes "public_schema_filter (a @ t) = Some r" and "a \<noteq> []" and "\<not> qchar (last a)"
  shows "\<exists>m q. a = m @ q \<and> qualifier m"
proof -
  from assms(1) obtain m where m: "a @ t = m @ r" "qualifier m"
    unfolding filter_iff by blast
  from m(1) obtain us where "a = m @ us \<or> a @ us = m"
    by (auto simp: append_eq_append_conv2)
  then consider us where "a = m @ us" | us where "a @ us = m" "us \<noteq> []"
    by (cases "us = []") auto
  then show ?thesis
  proof cases
    case 1
    with m(2) show ?thesis by blast
  next
    case 2
    then have "last a \<in> set (butlast m)"
      using assms(2) by (auto simp: butlast_append)
    with qualifier_shape(3)[OF m(2)] assms(3) show ?thesis by blast
  qed
qed

lemma re_sub_clean:
  assumes "\<forall>i<length p. public_schema_filter (drop i (p @ s)) = None"
    and "detached_from (p \<noteq> [] \<and> qchar (last p)) s"
  shows "nomatch (p @ re_sub s)"
  using assms
proof (induction s arbitrary: p rule: re_sub.induct)
  case 1
  then show ?case by (simp add: nomatch_iff)
next
  case (2 x xs)
  show ?case
  proof (cases "public_schema_filter (x # xs)")
    case None
    have "\<forall>i<length (p @ [x]). public_schema_filter (drop i ((p @ [x]) @ xs)) = None"
      using "2.prems"(1) None by (auto simp: less_Suc_eq)
    moreover have "detached_from ((p @ [x]) \<noteq> [] \<and> qchar (last (p @ [x]))) xs"
      using "2.prems"(2) by simp
    ultimately have "nomatch ((p @ [x]) @ re_sub xs)"
      by (rule "2.IH"(1)[OF None])
    with None show ?thesis by simp
  next
    case (Some r)
    then obtain m where m: "x # xs = m @ r" "qualifier m"
      unfolding filter_iff by blast
    from "2.prems"(2) Some have free: "p = [] \<or> \<not> qchar (last p)"
      by auto
    have "detached_from (qchar (last m)) r"
      using "2.prems"(2) m qualifier_shape(1)[OF m(2)]
      by (metis detached_from_append)
    then have d: "detached_from (p \<noteq> [] \<and> qchar (last p)) r"
      using free qualifier_shape(2)[OF m(2)] by (auto simp: qchar_def ignorecase_eq_def str_def)
    have "public_schema_filter (drop i (p @ r)) = None" if i: "i < length p" for i
    proof (rule ccontr)
      assume "public_schema_filter (drop i (p @ r)) \<noteq> None"
      then obtain r' where r': "public_schema_filter (drop i p @ r) = Some r'"
        using i by auto
      have ne: "drop i p \<noteq> []" using i by simp
      have "\<not> qchar (last (drop i p))"
        using free i by auto
      from match_inside[OF r' ne this] obtain m' q where "drop i p = m' @ q" "qualifier m'"
        by blast
      then have "public_schema_filter (drop i p @ (x # xs)) = Some (q @ x # xs)"
        unfolding filter_iff by auto
      with "2.prems"(1) i show False by auto
    qed
    then have "nomatch (p @ re_sub r)"
      using d "2.IH"(2)[OF Some] by blast
    with Some show ?thesis by simp
  qed
qed

lemma re_sub_idem:
  assumes "detached_from False s"
  shows "re_sub (re_sub s) = re_sub s"
proof -
  have "nomatch ([] @ re_sub s)"
    by (rule re_sub_clean) (use assms in auto)
  then show ?thesis by (simp add: re_sub_nomatch)
qed


lemma ignorecase_eq_to_quote [simp]: "ignorecase_eq lo 39 \<longleftrightarrow> lo = 39"
  by (auto simp: ignorecase_eq_def)

lemma ignorecase_eq_to_dot [simp]: "ignorecase_eq lo 46 \<longleftrightarrow> lo = 46"
  by (auto simp: ignorecase_eq_def)

lemma qualifier_cross:
  assumes "qualifier m" and "qualifier q" and "a \<noteq> []" and "us \<noteq> []"
    and "a @ us = m" and "us @ r = q @ t"
  shows False
  using assms
  by (auto simp: qualifier_def str_def list_all2_Cons1 append_eq_Cons_conv Cons_eq_append_conv)


lemma filter_qualifier: "qualifier q \<Longrightarrow> public_schema_filter (q @ t) = Some t"
  unfolding filter_iff by blast

lemma filter_gap:
  assumes "public_schema_filter (x # g) = None" and "qualifier q"
  shows "public_schema_filter (x # g @ q @ t) = None"
proof (rule ccontr)
  assume "public_schema_filter (x # g @ q @ t) \<noteq> None"
  then obtain r where "public_schema_filter (x # g @ q @ t) = Some r"
    by auto
  from this[unfolded filter_iff] obtain m where m: "x # g @ q @ t = m @ r" "qualifier m"
    by blast
  from m(1) have "(x # g) @ (q @ t) = m @ r"
    by simp
  from this[THEN append_eq_append_conv2[THEN iffD1]]
  obtain us where us: "(x # g = m @ us \<and> us @ (q @ t) = r) \<or> ((x # g) @ us = m \<and> q @ t = us @ r)"
    by blast
  show False
  proof (cases "\<exists>vs. x # g = m @ vs")
    case True
    then obtain vs where "x # g = m @ vs" ..
    then have "public_schema_filter (x # g) = Some vs"
      using m(2) filter_qualifier by metis
    with assms(1) show False by simp
  next
    case False
    with us have split: "(x # g) @ us = m" "us @ r = q @ t"
      by auto
    have "us \<noteq> []"
    proof
      assume "us = []"
      with split(1) have "x # g = m @ []" by simp
      with False show False by blast
    qed
    show False
      by (rule qualifier_cross[OF m(2) assms(2) _ \<open>us \<noteq> []\<close> split]) simp
  qed
qed

lemma re_sub_gap:
  assumes "nomatch g" and "qualifier q"
  shows "re_sub (g @ q @ t) = g @ re_sub t"
  using assms
proof (induction g)
  case Nil
  from qualifier_shape(1)[OF Nil(2)] obtain y ys where q: "q = y # ys"
    by (cases q) auto
  have "public_schema_filter ((y # ys) @ t) = Some t"
    using filter_qualifier Nil(2) q by blast
  then show ?case by (simp add: q)
next
  case (Cons x g)
  then have "public_schema_filter (x # g @ q @ t) = None"
    by (auto intro: filter_gap)
  with Cons show ?case by simp
qed

lemma re_sub_weave:
  assumes "nomatch g" and "\<forall>(q, g') \<in> set qgs. qualifier q \<and> nomatch g'"
  shows "re_sub (weave g qgs) = g @ concat (map snd qgs)"
  using assms
proof (induction qgs arbitrary: g)
  case Nil
  then show ?case by (simp add: re_sub_nomatch)
next
  case (Cons p qgs)
  obtain q g' where p: "p = (q, g')" by (cases p)
  from Cons.prems p have "qualifier q" "nomatch g'" "\<forall>(q, g') \<in> set qgs. qualifier q \<and> nomatch g'"
    by auto
  with Cons.IH[of g'] Cons.prems(1) show ?case
    by (simp add: p re_sub_gap)
qed

lemma remove_public_schema_str:
  "remove_public_schema (PyStr s) =
     Inr (PyStr (if sublist (str ''public'') s then re_sub s else s))"
  by (cases s) (simp_all add: remove_public_schema_def public_in_def re_sub_value_def)

lemma re_sub_length: "length (re_sub s) \<le> length s"
proof (induction s rule: re_sub.induct)
  case 1
  show ?case by simp
next
  case (2 x xs)
  show ?case
  proof (cases "public_schema_filter (x # xs)")
    case None
    with 2 show ?thesis by simp
  next
    case (Some r)
    with 2 public_schema_filter_length[OF Some] show ?thesis by simp
  qed
qed

lemma re_sub_fixed_iff: "re_sub s = s \<longleftrightarrow> nomatch s"
proof
  show "re_sub s = s \<Longrightarrow> nomatch s"
  proof (induction s)
    case Nil
    show ?case by simp
  next
    case (Cons x xs)
    show ?case
    proof (cases "public_schema_filter (x # xs)")
      case None
      with Cons show ?thesis by simp
    next
      case (Some r)
      have "length (re_sub r) < length (x # xs)"
        using re_sub_length[of r] public_schema_filter_length[OF Some] by simp
      with Cons.prems Some show ?thesis by simp
    qed
  qed
qed (rule re_sub_nomatch)

lemma ignorecase_eq_letters:
  "ignorecase_eq 112 ch \<longleftrightarrow> ch \<in> {112, 80}"
  "ignorecase_eq 117 ch \<longleftrightarrow> ch \<in> {117, 85}"
  "ignorecase_eq 98 ch \<longleftrightarrow> ch \<in> {98, 66}"
  "ignorecase_eq 108 ch \<longleftrightarrow> ch \<in> {108, 76}"
  "ignorecase_eq 105 ch \<longleftrightarrow> ch \<in> {105, 73, 304, 305}"
  "ignorecase_eq 99 ch \<longleftrightarrow> ch \<in> {99, 67}"
  by (auto simp: ignorecase_eq_def)

lemma literal_unquoted: "literal (str ''public.'') s \<noteq> None \<longleftrightarrow> unquoted_at s"
  by (cases s rule: unquoted_at.cases)
    (simp_all add: str_def ignorecase_eq_letters del: insert_iff)

lemma literal_quoted: "literal (str '''public'.'') s \<noteq> None \<longleftrightarrow> quoted_at s"
  by (cases s rule: quoted_at.cases)
    (simp_all add: str_def ignorecase_eq_letters del: insert_iff)

lemma filter_None_iff:
  "public_schema_filter s = None \<longleftrightarrow> \<not> unquoted_at s \<and> \<not> quoted_at s"
  unfolding literal_unquoted[symmetric] literal_quoted[symmetric] filter_alt
  by (simp split: option.splits)

lemma qualifier_free_iff_nomatch: "qualifier_free s \<longleftrightarrow> nomatch s"
  by (induction s) (simp_all add: filter_None_iff)

lemma sublist_public_weave:
  assumes "q = str ''public.'' \<or> q = str '''public'.''"
  shows "sublist (str ''public'') (weave g ((q, g') # qgs))"
proof -
  have "sublist (str ''public'') q"
    using assms by (auto simp: str_def sublist_Cons_right)
  then show ?thesis
    by (simp add: sublist_append)
qed

lemma qualifier_lower: "qualifier (str ''public.'')" "qualifier (str '''public'.'')"
  by (simp_all add: qualifier_def str_def ignorecase_eq_def)

lemma sublist_public_woven:
  assumes "\<forall>(q, g') \<in> set qgs. (q = str ''public.'' \<or> q = str '''public'.'') \<and> nomatch g'"
    and "qgs \<noteq> []"
  shows "sublist (str ''public'') (weave g qgs)"
proof -
  from assms obtain q g' rest where "qgs = (q, g') # rest" "q = str ''public.'' \<or> q = str '''public'.''"
    by (cases qgs) auto
  then show ?thesis
    using sublist_public_weave by blast
qed

lemma remove_public_schema_weave:
  assumes "nomatch g"
    and "\<forall>(q, g') \<in> set qgs. (q = str ''public.'' \<or> q = str '''public'.'') \<and> nomatch g'"
  shows "remove_public_schema (PyStr (weave g qgs)) = Inr (PyStr (g @ concat (map snd qgs)))"
proof (cases "qgs = []")
  case True
  with assms(1) show ?thesis
    by (simp add: remove_public_schema_str re_sub_nomatch)
next
  case False
  have "\<forall>(q, g') \<in> set qgs. qualifier q \<and> nomatch g'"
    using assms(2) qualifier_lower by auto
  with assms(1) have "re_sub (weave g qgs) = g @ concat (map snd qgs)"
    by (rule re_sub_weave)
  with sublist_public_woven[OF assms(2) False] show ?thesis
    by (simp add: remove_public_schema_str)
qed

section \<open>The claims on the query rewriter\<close>

text \<open>
  C1. The pattern is case-insensitive, and the substitution alone turns
  \<open>SELECT * FROM PUBLIC.Trades\<close> into \<open>SELECT * FROM Trades\<close>. The rewriter does not
  get that far: its guard looks for the lower-case text \<open>public\<close>, does not find it,
  and the statement is returned as it came.
\<close>

theorem uppercase_qualifier_kept:
  "remove_public_schema (PyStr (str ''SELECT * FROM PUBLIC.Trades''))
     = Inr (PyStr (str ''SELECT * FROM PUBLIC.Trades''))
   \<and> re_sub_value (PyStr (str ''SELECT * FROM PUBLIC.Trades''))
     = Inr (PyStr (str ''SELECT * FROM Trades''))"
  by code_simp

text \<open>
  C2. The rewriter turns \<open>SELECT * FROM public.trades\<close> and
  \<open>SELECT * FROM 'public'.trades\<close> into \<open>SELECT * FROM trades\<close>. In general, for a text
  made of stretches without a match that are separated by qualifiers, each of them
  \<open>public.\<close> or \<open>'public'.\<close>, the result is the stretches alone, in their order: every
  qualifier is removed, whichever of the two forms it has, and the rest is unchanged.
  The same holds with the letters of the qualifiers in either case, for a text that
  contains the lower-case \<open>public\<close> somewhere.
\<close>

theorem qualifier_forms_stripped:
  "remove_public_schema (PyStr (str ''SELECT * FROM public.trades''))
     = Inr (PyStr (str ''SELECT * FROM trades''))
   \<and> remove_public_schema (PyStr (str ''SELECT * FROM 'public'.trades''))
     = Inr (PyStr (str ''SELECT * FROM trades''))
   \<and> (\<forall>g qgs. nomatch g
          \<and> (\<forall>(q, g') \<in> set qgs. (q = str ''public.'' \<or> q = str '''public'.'') \<and> nomatch g')
        \<longrightarrow> remove_public_schema (PyStr (weave g qgs)) = Inr (PyStr (g @ concat (map snd qgs))))
   \<and> (\<forall>g qgs. nomatch g \<and> (\<forall>(q, g') \<in> set qgs. qualifier q \<and> nomatch g')
          \<and> sublist (str ''public'') (weave g qgs)
        \<longrightarrow> remove_public_schema (PyStr (weave g qgs)) = Inr (PyStr (g @ concat (map snd qgs))))"
proof (intro conjI allI impI)
  show "remove_public_schema (PyStr (str ''SELECT * FROM public.trades''))
     = Inr (PyStr (str ''SELECT * FROM trades''))"
    by code_simp
  show "remove_public_schema (PyStr (str ''SELECT * FROM 'public'.trades''))
     = Inr (PyStr (str ''SELECT * FROM trades''))"
    by code_simp
  show "remove_public_schema (PyStr (weave g qgs)) = Inr (PyStr (g @ concat (map snd qgs)))"
    if "nomatch g
          \<and> (\<forall>(q, g') \<in> set qgs. (q = str ''public.'' \<or> q = str '''public'.'') \<and> nomatch g')"
    for g qgs
    using that remove_public_schema_weave by blast
  show "remove_public_schema (PyStr (weave g qgs)) = Inr (PyStr (g @ concat (map snd qgs)))"
    if "nomatch g \<and> (\<forall>(q, g') \<in> set qgs. qualifier q \<and> nomatch g')
          \<and> sublist (str ''public'') (weave g qgs)"
    for g qgs
    using that by (simp add: remove_public_schema_str re_sub_weave)
qed

theorem qualifier_forms_stripped_witness:
  "nomatch (str ''SELECT a FROM '') \<and> nomatch (str ''t JOIN '') \<and> nomatch (str ''u'')
   \<and> remove_public_schema (PyStr (str ''SELECT a FROM public.t JOIN 'public'.u''))
       = Inr (PyStr (str ''SELECT a FROM t JOIN u''))
   \<and> qualifier (str ''PUBLIC.'')
   \<and> sublist (str ''public'') (str ''SELECT a FROM PUBLIC.t JOIN public.u'')
   \<and> remove_public_schema (PyStr (str ''SELECT a FROM PUBLIC.t JOIN public.u''))
       = Inr (PyStr (str ''SELECT a FROM t JOIN u''))"
proof -
  let ?g = "str ''SELECT a FROM ''"
  let ?qgs = "[(str ''public.'', str ''t JOIN ''), (str '''public'.'', str ''u'')]"
  let ?qgs' = "[(str ''PUBLIC.'', str ''t JOIN ''), (str ''public.'', str ''u'')]"
  have h: "nomatch (str ''SELECT a FROM '')" "nomatch (str ''t JOIN '')" "nomatch (str ''u'')"
    by code_simp+
  have q: "qualifier (str ''PUBLIC.'')" "qualifier (str ''public.'')"
    by (simp_all add: qualifier_def str_def ignorecase_eq_def)
  have w: "weave ?g ?qgs = str ''SELECT a FROM public.t JOIN 'public'.u''"
    "weave ?g ?qgs' = str ''SELECT a FROM PUBLIC.t JOIN public.u''"
    "?g @ concat (map snd ?qgs) = str ''SELECT a FROM t JOIN u''"
    "?g @ concat (map snd ?qgs') = str ''SELECT a FROM t JOIN u''"
    by (simp_all add: str_def)
  have p: "sublist (str ''public'') (str ''SELECT a FROM PUBLIC.t JOIN public.u'')"
    by code_simp
  from h have "nomatch ?g
      \<and> (\<forall>(q, g') \<in> set ?qgs. (q = str ''public.'' \<or> q = str '''public'.'') \<and> nomatch g')"
    by simp
  with qualifier_forms_stripped
  have "remove_public_schema (PyStr (weave ?g ?qgs)) = Inr (PyStr (?g @ concat (map snd ?qgs)))"
    by blast
  then have a: "remove_public_schema (PyStr (str ''SELECT a FROM public.t JOIN 'public'.u''))
       = Inr (PyStr (str ''SELECT a FROM t JOIN u''))"
    unfolding w .
  from h q p have "nomatch ?g \<and> (\<forall>(q, g') \<in> set ?qgs'. qualifier q \<and> nomatch g')
      \<and> sublist (str ''public'') (weave ?g ?qgs')"
    unfolding w by simp
  with qualifier_forms_stripped
  have "remove_public_schema (PyStr (weave ?g ?qgs')) = Inr (PyStr (?g @ concat (map snd ?qgs')))"
    by blast
  then have b: "remove_public_schema (PyStr (str ''SELECT a FROM PUBLIC.t JOIN public.u''))
       = Inr (PyStr (str ''SELECT a FROM t JOIN u''))"
    unfolding w .
  from h a q(1) p b show ?thesis by simp
qed

text \<open>
  C3, as stated, fails: a prefix before \<open>public\<close> does not protect the qualifier, and
  \<open>SELECT * FROM republic.x\<close> becomes \<open>SELECT * FROM rex\<close>.
\<close>

theorem prefixed_qualifier_counterexample:
  "remove_public_schema (PyStr (str ''SELECT * FROM republic.x''))
     = Inr (PyStr (str ''SELECT * FROM rex''))
   \<and> remove_public_schema (PyStr (str ''SELECT * FROM republic.x''))
     \<noteq> Inr (PyStr (str ''SELECT * FROM republic.x''))"
  by code_simp

text \<open>
  C3, amended. A text in which no position starts \<open>public.\<close> or \<open>'public'.\<close>, with
  each letter in either case and, for the letter \<open>i\<close>, also as U+0130 or U+0131, is
  returned unchanged. This holds for \<open>SELECT * FROM publication\<close>, where \<open>public\<close> is
  followed by further letters, and for \<open>public\<close> in a string literal that no dot
  follows.
\<close>

theorem unchanged_without_qualifier:
  assumes "qualifier_free s"
  shows "remove_public_schema (PyStr s) = Inr (PyStr s)"
  using assms
  by (simp add: remove_public_schema_str qualifier_free_iff_nomatch re_sub_nomatch)

theorem unchanged_without_qualifier_witness:
  "qualifier_free (str ''SELECT * FROM publication WHERE kind = 'public' '')
   \<and> remove_public_schema (PyStr (str ''SELECT * FROM publication WHERE kind = 'public' ''))
       = Inr (PyStr (str ''SELECT * FROM publication WHERE kind = 'public' ''))
   \<and> qualifier_free (str ''SELECT * FROM publication'')
   \<and> remove_public_schema (PyStr (str ''SELECT * FROM publication''))
       = Inr (PyStr (str ''SELECT * FROM publication''))"
proof -
  have h: "qualifier_free (str ''SELECT * FROM publication WHERE kind = 'public' '')"
    "qualifier_free (str ''SELECT * FROM publication'')"
    by code_simp+
  from unchanged_without_qualifier[OF h(1)] unchanged_without_qualifier[OF h(2)] h
  show ?thesis by simp
qed

text \<open>
  C4, as stated, fails: removing a match can join the characters around it into a new
  one. \<open>ppublic.ublic.t\<close> is rewritten to \<open>public.t\<close>, and rewriting that gives \<open>t\<close>.
\<close>

theorem idempotence_counterexample:
  "remove_public_schema (PyStr (str ''ppublic.ublic.t'')) = Inr (PyStr (str ''public.t''))
   \<and> rewrite_again (remove_public_schema (PyStr (str ''ppublic.ublic.t''))) = Inr (PyStr (str ''t''))
   \<and> rewrite_again (remove_public_schema (PyStr (str ''ppublic.ublic.t'')))
       \<noteq> remove_public_schema (PyStr (str ''ppublic.ublic.t''))"
  by code_simp

text \<open>
  C4, amended. When every match in the text starts the text or follows a character that
  is neither a quote nor a letter of \<open>public\<close> (in either case), rewriting the result
  of the rewrite gives the same result again.
\<close>

theorem idempotent_when_detached:
  assumes "detached s"
  shows "rewrite_again (remove_public_schema (PyStr s)) = remove_public_schema (PyStr s)"
proof -
  have "re_sub (re_sub s) = re_sub s"
    using assms by (simp add: detached_def re_sub_idem)
  then show ?thesis
    by (simp add: rewrite_again_def remove_public_schema_str)
qed

theorem idempotent_when_detached_witness:
  "detached (str ''SELECT * FROM public.trades t, 'public'.quotes q WHERE republic = 1'')
   \<and> rewrite_again (remove_public_schema
         (PyStr (str ''SELECT * FROM public.trades t, 'public'.quotes q WHERE republic = 1'')))
       = remove_public_schema
           (PyStr (str ''SELECT * FROM public.trades t, 'public'.quotes q WHERE republic = 1''))"
proof -
  have h: "detached (str ''SELECT * FROM public.trades t, 'public'.quotes q WHERE republic = 1'')"
    by code_simp
  from idempotent_when_detached[OF h] h show ?thesis by simp
qed

text \<open>
  C8. A text that does not contain the lower-case \<open>public\<close> is returned unchanged;
  \<open>SELECT * FROM trades\<close> is such a text.
\<close>

theorem identity_without_public:
  assumes "\<not> sublist (str ''public'') s"
  shows "remove_public_schema (PyStr s) = Inr (PyStr s)"
  using assms by (simp add: remove_public_schema_str)

theorem identity_without_public_witness:
  "\<not> sublist (str ''public'') (str ''SELECT * FROM trades'')
   \<and> remove_public_schema (PyStr (str ''SELECT * FROM trades''))
       = Inr (PyStr (str ''SELECT * FROM trades''))"
proof -
  have h: "\<not> sublist (str ''public'') (str ''SELECT * FROM trades'')"
    by code_simp
  from identity_without_public[OF h] h show ?thesis by simp
qed



section \<open>Properties of the connect operation and of the capability lists\<close>

lemma append_rows_raises: "append_rows rows target_list = (t, Some e) \<Longrightarrow> e = IndexError"
  by (induction rows arbitrary: target_list) (auto split: list.splits)

lemma append_rows_columns:
  "\<forall>row \<in> set rows. row \<noteq> [] \<Longrightarrow> append_rows rows target_list = (target_list @ map hd rows, None)"
  by (induction rows arbitrary: target_list) (auto split: list.splits)

lemma populate_database_error:
  assumes "populate conn sql_stmt target_list = (t, sent, Some e)" and "isinstance_DatabaseError e"
  shows "t = target_list"
  using assms
  by (auto simp: populate_def split: option.splits sum.splits prod.splits
      dest!: append_rows_raises)

lemma initialize_list_fallback:
  assumes "populate conn sql_stmt [] = (t, sent, Some e)" and "isinstance_DatabaseError e"
  shows "initialize_list conn sql_stmt [] default_target_list = (default_target_list, sent, None)"
  using assms populate_database_error[OF assms]
  by (simp add: initialize_list_def)

lemma initialize_list_propagates:
  assumes "populate conn sql_stmt [] = (t, sent, Some e)" and "\<not> isinstance_DatabaseError e"
  shows "initialize_list conn sql_stmt [] default_target_list = (t, sent, Some e)"
  using assms by (simp add: initialize_list_def)

lemma initialize_list_rows:
  assumes "cursor_raises conn = None" and "execute conn sql_stmt = Inr (q, Inr rows)"
    and "\<forall>row \<in> set rows. row \<noteq> []"
  shows "initialize_list conn sql_stmt [] default_target_list = (map hd rows, [q], None)"
  using assms by (simp add: initialize_list_def populate_def append_rows_columns)

lemma initialize_list_nonempty:
  "target_list \<noteq> [] \<Longrightarrow>
     initialize_list conn sql_stmt target_list default_target_list = (target_list, [], None)"
  by (simp add: initialize_list_def)

lemma connect_functions_raise:
  assumes "psycopg2_connect (connect_args kwargs) = Inr conn"
    and "initialize_list conn (PyStr (str ''SELECT name FROM functions()'')) (func_names g)
           default_func_names = (fs, sent1, Some e)"
  shows "snd (snd (connect psycopg2_connect kwargs g)) = Inl e"
  using assms by (simp add: connect_def)

lemma connect_keywords_raise:
  assumes "psycopg2_connect (connect_args kwargs) = Inr conn"
    and "initialize_list conn (PyStr (str ''SELECT name FROM functions()'')) (func_names g)
           default_func_names = (fs, sent1, None)"
    and "initialize_list conn (PyStr (str ''SELECT keyword FROM keywords()'')) (keywords_list g)
           default_keywords = (ks, sent2, Some e)"
  shows "snd (snd (connect psycopg2_connect kwargs g)) = Inl e"
  using assms by (simp add: connect_def)

lemma connect_func_names:
  assumes "psycopg2_connect (connect_args kwargs) = Inr conn"
    and "initialize_list conn (PyStr (str ''SELECT name FROM functions()'')) (func_names g)
           default_func_names = (fs, sent1, raised)"
  shows "get_function_names (fst (connect psycopg2_connect kwargs g)) = fs"
  using assms
  by (cases raised) (auto simp: connect_def get_function_names_def split: prod.splits option.splits)

lemma connect_keywords:
  assumes "psycopg2_connect (connect_args kwargs) = Inr conn"
    and "initialize_list conn (PyStr (str ''SELECT name FROM functions()'')) (func_names g)
           default_func_names = (fs, sent1, None)"
    and "initialize_list conn (PyStr (str ''SELECT keyword FROM keywords()'')) (keywords_list g)
           default_keywords = (ks, sent2, raised)"
  shows "get_keywords (fst (connect psycopg2_connect kwargs g)) = ks"
  using assms
  by (cases raised) (auto simp: connect_def get_keywords_def split: prod.splits option.splits)

lemma connect_populated:
  assumes "psycopg2_connect (connect_args kwargs) = Inr conn"
    and "func_names g \<noteq> []" and "keywords_list g \<noteq> []"
  shows "connect psycopg2_connect kwargs g = (g, [], Inr conn)"
  using assms by (simp add: connect_def initialize_list_nonempty)

lemma introspection_statements_kept:
  "remove_public_schema (PyStr (str ''SELECT name FROM functions()''))
     = Inr (PyStr (str ''SELECT name FROM functions()''))"
  "remove_public_schema (PyStr (str ''SELECT keyword FROM keywords()''))
     = Inr (PyStr (str ''SELECT keyword FROM keywords()''))"
  by code_simp+

lemma dict_get_other: "k \<noteq> k' \<Longrightarrow> dict_get (kwargs(k \<mapsto> v)) k' = dict_get kwargs k'"
  by (simp add: dict_get_def)

lemma connect_args_lookup:
  "connect_args kwargs ''host'' = Some (py_or (dict_get kwargs ''host'') (PyStr (str ''127.0.0.1'')))"
  "connect_args kwargs ''port'' = Some (py_or (dict_get kwargs ''port'') (PyInt 8812))"
  "connect_args kwargs ''user'' = Some (py_or (dict_get kwargs ''username'') (PyStr (str ''admin'')))"
  "connect_args kwargs ''password'' = Some (py_or (dict_get kwargs ''password'') (PyStr (str ''quest'')))"
  "connect_args kwargs ''database'' = Some (py_or (dict_get kwargs ''database'') (PyStr (str ''main'')))"
  by (simp_all add: connect_args_def)

lemma py_or_default: "unset_or_falsy kwargs k \<Longrightarrow> py_or (dict_get kwargs k) d = d"
  by (auto simp: unset_or_falsy_def py_or_def dict_get_def split: option.splits)

lemma py_or_supplied: "kwargs k = Some v \<Longrightarrow> truthy v \<Longrightarrow> py_or (dict_get kwargs k) d = v"
  by (simp add: py_or_def dict_get_def)

section \<open>The claims on the connect operation and on the capability lists\<close>

text \<open>
  C5, as stated, fails: an option that \<open>connect\<close> does not read is not handed on. With
  \<open>sslmode="require"\<close> the call of the library has no argument \<open>sslmode\<close>, and its
  arguments are those of a call without any option.
\<close>

theorem unknown_option_counterexample:
  "connect_args [''sslmode'' \<mapsto> PyStr (str ''require'')] ''sslmode'' = None
   \<and> connect_args [''sslmode'' \<mapsto> PyStr (str ''require'')] = connect_args Map.empty"
  by (simp add: connect_args_def dict_get_def)

text \<open>
  C5, amended. The call of the library's \<open>connect\<close> has exactly the six arguments
  \<open>cursor_factory\<close>, \<open>host\<close>, \<open>port\<close>, \<open>user\<close>, \<open>password\<close> and \<open>database\<close>. An option
  other than \<open>host\<close>, \<open>port\<close>, \<open>username\<close>, \<open>password\<close> and \<open>database\<close> is dropped:
  adding it to the configuration changes neither these arguments nor anything else that
  \<open>connect\<close> does.
\<close>

theorem only_known_options_used:
  "dom (connect_args kwargs)
     = {''cursor_factory'', ''host'', ''port'', ''user'', ''password'', ''database''}
   \<and> (k \<notin> {''host'', ''port'', ''username'', ''password'', ''database''}
        \<longrightarrow> connect_args (kwargs(k \<mapsto> v)) = connect_args kwargs
          \<and> connect psycopg2_connect (kwargs(k \<mapsto> v)) g = connect psycopg2_connect kwargs g)"
proof (intro conjI impI)
  show "dom (connect_args kwargs)
     = {''cursor_factory'', ''host'', ''port'', ''user'', ''password'', ''database''}"
    by (auto simp: connect_args_def Let_def)
  assume "k \<notin> {''host'', ''port'', ''username'', ''password'', ''database''}"
  then show same: "connect_args (kwargs(k \<mapsto> v)) = connect_args kwargs"
    by (simp add: connect_args_def dict_get_other)
  then show "connect psycopg2_connect (kwargs(k \<mapsto> v)) g = connect psycopg2_connect kwargs g"
    by (simp add: connect_def)
qed

theorem only_known_options_used_witness:
  "''sslmode'' \<notin> {''host'', ''port'', ''username'', ''password'', ''database''}
   \<and> connect_args ([''host'' \<mapsto> PyStr (str ''db'')](''sslmode'' \<mapsto> PyStr (str ''require'')))
       = connect_args [''host'' \<mapsto> PyStr (str ''db'')]
   \<and> dom (connect_args ([''host'' \<mapsto> PyStr (str ''db'')](''sslmode'' \<mapsto> PyStr (str ''require''))))
       = {''cursor_factory'', ''host'', ''port'', ''user'', ''password'', ''database''}"
proof (intro conjI)
  show h: "''sslmode'' \<notin> {''host'', ''port'', ''username'', ''password'', ''database''}"
    by simp
  show "connect_args ([''host'' \<mapsto> PyStr (str ''db'')](''sslmode'' \<mapsto> PyStr (str ''require'')))
       = connect_args [''host'' \<mapsto> PyStr (str ''db'')]"
    by (rule only_known_options_used[THEN conjunct2, THEN mp, OF h, THEN conjunct1])
  show "dom (connect_args ([''host'' \<mapsto> PyStr (str ''db'')](''sslmode'' \<mapsto> PyStr (str ''require''))))
       = {''cursor_factory'', ''host'', ''port'', ''user'', ''password'', ''database''}"
    by (rule only_known_options_used[THEN conjunct1])
qed

text \<open>
  C6. Populating an empty list: when the body of the \<open>try\<close> statement ends with an
  exception that is a \<open>DatabaseError\<close>, the list afterwards is exactly the default list,
  and nothing is raised; any other exception leaves \<open>__initialize_list\<close> as it is, and
  \<open>connect\<close>, which has no handler, ends with it. Both hold for the list of functions
  and for the list of keywords.
\<close>

theorem database_error_falls_back:
  "(populate conn sql_stmt [] = (t, sent, Some e) \<and> isinstance_DatabaseError e
      \<longrightarrow> initialize_list conn sql_stmt [] default_target_list = (default_target_list, sent, None))
   \<and> (populate conn sql_stmt [] = (t, sent, Some e) \<and> \<not> isinstance_DatabaseError e
      \<longrightarrow> initialize_list conn sql_stmt [] default_target_list = (t, sent, Some e))
   \<and> (psycopg2_connect (connect_args kwargs) = Inr conn \<and> func_names g = []
        \<and> populate conn (PyStr (str ''SELECT name FROM functions()'')) [] = (t, sent, Some e)
      \<longrightarrow> (if isinstance_DatabaseError e
           then get_function_names (fst (connect psycopg2_connect kwargs g)) = default_func_names
           else snd (snd (connect psycopg2_connect kwargs g)) = Inl e))
   \<and> (psycopg2_connect (connect_args kwargs) = Inr conn
        \<and> initialize_list conn (PyStr (str ''SELECT name FROM functions()'')) (func_names g)
            default_func_names = (fs, sent1, None)
        \<and> keywords_list g = []
        \<and> populate conn (PyStr (str ''SELECT keyword FROM keywords()'')) [] = (t, sent, Some e)
      \<longrightarrow> (if isinstance_DatabaseError e
           then get_keywords (fst (connect psycopg2_connect kwargs g)) = default_keywords
           else snd (snd (connect psycopg2_connect kwargs g)) = Inl e))"
proof (intro conjI impI; (elim conjE)?)
  show "initialize_list conn sql_stmt [] default_target_list = (default_target_list, sent, None)"
    if "populate conn sql_stmt [] = (t, sent, Some e)" "isinstance_DatabaseError e"
    using that by (rule initialize_list_fallback)
  show "initialize_list conn sql_stmt [] default_target_list = (t, sent, Some e)"
    if "populate conn sql_stmt [] = (t, sent, Some e)" "\<not> isinstance_DatabaseError e"
    using that by (rule initialize_list_propagates)
  show "if isinstance_DatabaseError e
        then get_function_names (fst (connect psycopg2_connect kwargs g)) = default_func_names
        else snd (snd (connect psycopg2_connect kwargs g)) = Inl e"
    if c: "psycopg2_connect (connect_args kwargs) = Inr conn" and "func_names g = []"
      and p: "populate conn (PyStr (str ''SELECT name FROM functions()'')) [] = (t, sent, Some e)"
  proof (cases "isinstance_DatabaseError e")
    case True
    from initialize_list_fallback[OF p True] that(2)
    have "initialize_list conn (PyStr (str ''SELECT name FROM functions()'')) (func_names g)
            default_func_names = (default_func_names, sent, None)"
      by simp
    from connect_func_names[where psycopg2_connect=psycopg2_connect and kwargs=kwargs, OF c this] True show ?thesis by simp
  next
    case False
    from initialize_list_propagates[OF p False] that(2)
    have "initialize_list conn (PyStr (str ''SELECT name FROM functions()'')) (func_names g)
            default_func_names = (t, sent, Some e)"
      by simp
    from connect_functions_raise[where psycopg2_connect=psycopg2_connect and kwargs=kwargs, OF c this] False show ?thesis by simp
  qed
  show "if isinstance_DatabaseError e
        then get_keywords (fst (connect psycopg2_connect kwargs g)) = default_keywords
        else snd (snd (connect psycopg2_connect kwargs g)) = Inl e"
    if c: "psycopg2_connect (connect_args kwargs) = Inr conn"
      and f: "initialize_list conn (PyStr (str ''SELECT name FROM functions()'')) (func_names g)
            default_func_names = (fs, sent1, None)"
      and "keywords_list g = []"
      and p: "populate conn (PyStr (str ''SELECT keyword FROM keywords()'')) [] = (t, sent, Some e)"
  proof (cases "isinstance_DatabaseError e")
    case True
    from initialize_list_fallback[OF p True] that(3)
    have "initialize_list conn (PyStr (str ''SELECT keyword FROM keywords()'')) (keywords_list g)
            default_keywords = (default_keywords, sent, None)"
      by simp
    from connect_keywords[where psycopg2_connect=psycopg2_connect and kwargs=kwargs, OF c f this] True show ?thesis by simp
  next
    case False
    from initialize_list_propagates[OF p False] that(3)
    have "initialize_list conn (PyStr (str ''SELECT keyword FROM keywords()'')) (keywords_list g)
            default_keywords = (t, sent, Some e)"
      by simp
    from connect_keywords_raise[where psycopg2_connect=psycopg2_connect and kwargs=kwargs, OF c f this] False show ?thesis by simp
  qed
qed

theorem database_error_falls_back_witness:
  "populate \<lparr>cursor_raises = None, server = (\<lambda>q. Inl ProgrammingError)\<rparr>
       (PyStr (str ''SELECT name FROM functions()'')) []
     = ([], [PyStr (str ''SELECT name FROM functions()'')], Some ProgrammingError)
   \<and> isinstance_DatabaseError ProgrammingError
   \<and> get_function_names (fst (connect
         (\<lambda>args. Inr \<lparr>cursor_raises = None, server = (\<lambda>q. Inl ProgrammingError)\<rparr>)
         Map.empty initial_globals)) = default_func_names
   \<and> populate \<lparr>cursor_raises = Some InterfaceError, server = (\<lambda>q. Inr [])\<rparr>
       (PyStr (str ''SELECT name FROM functions()'')) []
     = ([], [], Some InterfaceError)
   \<and> \<not> isinstance_DatabaseError InterfaceError
   \<and> snd (snd (connect
         (\<lambda>args. Inr \<lparr>cursor_raises = Some InterfaceError, server = (\<lambda>q. Inr [])\<rparr>)
         Map.empty initial_globals)) = Inl InterfaceError"
proof -
  let ?db = "\<lparr>cursor_raises = None, server = (\<lambda>q. Inl ProgrammingError)\<rparr>"
  let ?ie = "\<lparr>cursor_raises = Some InterfaceError, server = (\<lambda>q. Inr [])\<rparr>"
  let ?stmt = "PyStr (str ''SELECT name FROM functions()'')"
  have p1: "populate ?db ?stmt [] = ([], [?stmt], Some ProgrammingError)"
    by (simp add: populate_def execute_def introspection_statements_kept)
  have p2: "populate ?ie ?stmt [] = ([], [], Some InterfaceError)"
    by (simp add: populate_def)
  have g: "func_names initial_globals = []"
    by (simp add: initial_globals_def)
  from database_error_falls_back[where psycopg2_connect="\<lambda>args. Inr ?db" and kwargs=Map.empty
      and conn="?db" and g=initial_globals and t="[]" and sent="[?stmt]" and e=ProgrammingError] p1 g
  have a: "get_function_names (fst (connect (\<lambda>args. Inr ?db) Map.empty initial_globals))
      = default_func_names"
    by simp
  from database_error_falls_back[where psycopg2_connect="\<lambda>args. Inr ?ie" and kwargs=Map.empty
      and conn="?ie" and g=initial_globals and t="[]" and sent="[]" and e=InterfaceError] p2 g
  have b: "snd (snd (connect (\<lambda>args. Inr ?ie) Map.empty initial_globals)) = Inl InterfaceError"
    by simp
  from p1 p2 a b show ?thesis by simp
qed

text \<open>
  C7. Populating an empty list when the query succeeds and every row has a first column:
  the list afterwards holds the first column of every row, in the order of the rows,
  duplicates included, and the one statement was sent. A list that is not empty is left
  as it is and no statement is sent; so a \<open>connect\<close> that finds both lists populated
  changes nothing and sends nothing. Rows \<open>[["now"], ["sum"]]\<close> give \<open>["now", "sum"]\<close>.
\<close>

theorem population_guarded_by_emptiness:
  "(cursor_raises conn = None \<and> execute conn sql_stmt = Inr (q, Inr rows)
        \<and> (\<forall>row \<in> set rows. row \<noteq> [])
      \<longrightarrow> initialize_list conn sql_stmt [] default_target_list = (map hd rows, [q], None))
   \<and> (target_list \<noteq> []
      \<longrightarrow> initialize_list conn sql_stmt target_list default_target_list = (target_list, [], None))
   \<and> (psycopg2_connect (connect_args kwargs) = Inr conn \<and> func_names g = []
        \<and> cursor_raises conn = None
        \<and> execute conn (PyStr (str ''SELECT name FROM functions()'')) = Inr (q, Inr rows)
        \<and> (\<forall>row \<in> set rows. row \<noteq> [])
      \<longrightarrow> get_function_names (fst (connect psycopg2_connect kwargs g)) = map hd rows)
   \<and> (psycopg2_connect (connect_args kwargs) = Inr conn \<and> func_names g \<noteq> []
      \<longrightarrow> get_function_names (fst (connect psycopg2_connect kwargs g)) = func_names g)
   \<and> (psycopg2_connect (connect_args kwargs) = Inr conn
        \<and> func_names g \<noteq> [] \<and> keywords_list g \<noteq> []
      \<longrightarrow> connect psycopg2_connect kwargs g = (g, [], Inr conn))"
proof (intro conjI impI; (elim conjE)?)
  show "initialize_list conn sql_stmt [] default_target_list = (map hd rows, [q], None)"
    if "cursor_raises conn = None" "execute conn sql_stmt = Inr (q, Inr rows)"
      "\<forall>row \<in> set rows. row \<noteq> []"
    using that by (rule initialize_list_rows)
  show "initialize_list conn sql_stmt target_list default_target_list = (target_list, [], None)"
    if "target_list \<noteq> []"
    using that by (rule initialize_list_nonempty)
  show "get_function_names (fst (connect psycopg2_connect kwargs g)) = map hd rows"
    if c: "psycopg2_connect (connect_args kwargs) = Inr conn" and e: "func_names g = []"
      and r: "cursor_raises conn = None"
        "execute conn (PyStr (str ''SELECT name FROM functions()'')) = Inr (q, Inr rows)"
        "\<forall>row \<in> set rows. row \<noteq> []"
  proof -
    from initialize_list_rows[OF r] e
    have "initialize_list conn (PyStr (str ''SELECT name FROM functions()'')) (func_names g)
            default_func_names = (map hd rows, [q], None)"
      by simp
    from connect_func_names[where psycopg2_connect=psycopg2_connect and kwargs=kwargs, OF c this]
    show ?thesis .
  qed
  show "get_function_names (fst (connect psycopg2_connect kwargs g)) = func_names g"
    if c: "psycopg2_connect (connect_args kwargs) = Inr conn" and n: "func_names g \<noteq> []"
  proof -
    from initialize_list_nonempty[OF n]
    have "initialize_list conn (PyStr (str ''SELECT name FROM functions()'')) (func_names g)
            default_func_names = (func_names g, [], None)" .
    from connect_func_names[where psycopg2_connect=psycopg2_connect and kwargs=kwargs, OF c this]
    show ?thesis .
  qed
  show "connect psycopg2_connect kwargs g = (g, [], Inr conn)"
    if "psycopg2_connect (connect_args kwargs) = Inr conn" "func_names g \<noteq> []"
      "keywords_list g \<noteq> []"
    using that by (rule connect_populated)
qed

theorem population_guarded_by_emptiness_witness:
  "execute \<lparr>cursor_raises = None,
            server = (\<lambda>q. Inr [[PyStr (str ''now'')], [PyStr (str ''sum'')]])\<rparr>
       (PyStr (str ''SELECT name FROM functions()''))
     = Inr (PyStr (str ''SELECT name FROM functions()''),
            Inr [[PyStr (str ''now'')], [PyStr (str ''sum'')]])
   \<and> get_function_names (fst (connect
         (\<lambda>args. Inr \<lparr>cursor_raises = None,
            server = (\<lambda>q. Inr [[PyStr (str ''now'')], [PyStr (str ''sum'')]])\<rparr>)
         Map.empty initial_globals))
       = [PyStr (str ''now''), PyStr (str ''sum'')]
   \<and> connect
         (\<lambda>args. Inr \<lparr>cursor_raises = None,
            server = (\<lambda>q. Inr [[PyStr (str ''now'')], [PyStr (str ''sum'')]])\<rparr>)
         Map.empty
         \<lparr>func_names = [PyStr (str ''now''), PyStr (str ''sum'')],
          keywords_list = [PyStr (str ''now''), PyStr (str ''sum'')]\<rparr>
       = (\<lparr>func_names = [PyStr (str ''now''), PyStr (str ''sum'')],
           keywords_list = [PyStr (str ''now''), PyStr (str ''sum'')]\<rparr>,
          [],
          Inr \<lparr>cursor_raises = None,
            server = (\<lambda>q. Inr [[PyStr (str ''now'')], [PyStr (str ''sum'')]])\<rparr>)"
proof -
  let ?rows = "[[PyStr (str ''now'')], [PyStr (str ''sum'')]]"
  let ?conn = "\<lparr>cursor_raises = None, server = (\<lambda>q. Inr ?rows)\<rparr>"
  let ?stmt = "PyStr (str ''SELECT name FROM functions()'')"
  let ?g = "\<lparr>func_names = [PyStr (str ''now''), PyStr (str ''sum'')],
          keywords_list = [PyStr (str ''now''), PyStr (str ''sum'')]\<rparr>"
  have x: "execute ?conn ?stmt = Inr (?stmt, Inr ?rows)"
    by (simp add: execute_def introspection_statements_kept)
  have g: "func_names initial_globals = []"
    by (simp add: initial_globals_def)
  have nonempty: "\<forall>row \<in> set ?rows. row \<noteq> []"
    by simp
  from population_guarded_by_emptiness[where psycopg2_connect="\<lambda>args. Inr ?conn"
      and kwargs=Map.empty and conn="?conn" and g=initial_globals and q="?stmt"
      and rows="?rows", THEN conjunct2, THEN conjunct2, THEN conjunct1] x g nonempty
  have a: "get_function_names (fst (connect (\<lambda>args. Inr ?conn) Map.empty initial_globals))
      = map hd ?rows"
    by simp
  from population_guarded_by_emptiness[where psycopg2_connect="\<lambda>args. Inr ?conn"
      and kwargs=Map.empty and conn="?conn" and g="?g",
      THEN conjunct2, THEN conjunct2, THEN conjunct2, THEN conjunct2]
  have b: "connect (\<lambda>args. Inr ?conn) Map.empty ?g = (?g, [], Inr ?conn)"
    by simp
  from x a b show ?thesis by simp
qed

text \<open>
  C10. Each of the five options is replaced by its default when it is absent and also
  when its value is false: \<open>password=""\<close> gives \<open>quest\<close>, \<open>port=0\<close> gives 8812, and
  \<open>host=None\<close> gives \<open>127.0.0.1\<close>.
\<close>

theorem falsy_options_get_defaults:
  "(unset_or_falsy kwargs ''host''
      \<longrightarrow> connect_args kwargs ''host'' = Some (PyStr (str ''127.0.0.1'')))
   \<and> (unset_or_falsy kwargs ''port''
      \<longrightarrow> connect_args kwargs ''port'' = Some (PyInt 8812))
   \<and> (unset_or_falsy kwargs ''username''
      \<longrightarrow> connect_args kwargs ''user'' = Some (PyStr (str ''admin'')))
   \<and> (unset_or_falsy kwargs ''password''
      \<longrightarrow> connect_args kwargs ''password'' = Some (PyStr (str ''quest'')))
   \<and> (unset_or_falsy kwargs ''database''
      \<longrightarrow> connect_args kwargs ''database'' = Some (PyStr (str ''main'')))"
  by (simp add: connect_args_lookup py_or_default)

theorem falsy_options_get_defaults_witness:
  "unset_or_falsy [''password'' \<mapsto> PyStr [], ''port'' \<mapsto> PyInt 0, ''host'' \<mapsto> PyNone] ''password''
   \<and> connect_args [''password'' \<mapsto> PyStr [], ''port'' \<mapsto> PyInt 0, ''host'' \<mapsto> PyNone] ''password''
       = Some (PyStr (str ''quest''))
   \<and> unset_or_falsy [''password'' \<mapsto> PyStr [], ''port'' \<mapsto> PyInt 0, ''host'' \<mapsto> PyNone] ''port''
   \<and> connect_args [''password'' \<mapsto> PyStr [], ''port'' \<mapsto> PyInt 0, ''host'' \<mapsto> PyNone] ''port''
       = Some (PyInt 8812)
   \<and> unset_or_falsy [''password'' \<mapsto> PyStr [], ''port'' \<mapsto> PyInt 0, ''host'' \<mapsto> PyNone] ''host''
   \<and> connect_args [''password'' \<mapsto> PyStr [], ''port'' \<mapsto> PyInt 0, ''host'' \<mapsto> PyNone] ''host''
       = Some (PyStr (str ''127.0.0.1''))
   \<and> unset_or_falsy [''password'' \<mapsto> PyStr [], ''port'' \<mapsto> PyInt 0, ''host'' \<mapsto> PyNone] ''username''
   \<and> connect_args [''password'' \<mapsto> PyStr [], ''port'' \<mapsto> PyInt 0, ''host'' \<mapsto> PyNone] ''user''
       = Some (PyStr (str ''admin''))
   \<and> unset_or_falsy [''password'' \<mapsto> PyStr [], ''port'' \<mapsto> PyInt 0, ''host'' \<mapsto> PyNone] ''database''
   \<and> connect_args [''password'' \<mapsto> PyStr [], ''port'' \<mapsto> PyInt 0, ''host'' \<mapsto> PyNone] ''database''
       = Some (PyStr (str ''main''))"
proof -
  let ?kw = "[''password'' \<mapsto> PyStr [], ''port'' \<mapsto> PyInt 0, ''host'' \<mapsto> PyNone]"
  have h: "unset_or_falsy ?kw ''password''" "unset_or_falsy ?kw ''port''"
    "unset_or_falsy ?kw ''host''" "unset_or_falsy ?kw ''username''"
    "unset_or_falsy ?kw ''database''"
    by (simp_all add: unset_or_falsy_def)
  note t = falsy_options_get_defaults[where kwargs="?kw"]
  from h show ?thesis
    by (intro conjI)
      (assumption
       | rule t[THEN conjunct1, THEN mp]
              t[THEN conjunct2, THEN conjunct1, THEN mp]
              t[THEN conjunct2, THEN conjunct2, THEN conjunct1, THEN mp]
              t[THEN conjunct2, THEN conjunct2, THEN conjunct2, THEN conjunct1, THEN mp]
              t[THEN conjunct2, THEN conjunct2, THEN conjunct2, THEN conjunct2, THEN mp])+
qed

end
